theory Spec2Isabelle
  imports Complex_Main "HOL-Library.Word" "HOL-Library.Monad_Syntax"
begin

section \<open>Audio capture and re-encoding of the recording page (pages/page6.jsx)\<close>

text \<open>
  The recording page captures microphone audio with a MediaRecorder, chooses a capture
  format, and, when the recording is a WebM or Ogg stream, decodes it and writes it out
  again as a 16-bit mono WAV file before it is uploaded. This theory embeds that path:
  \<open>startRecording\<close> with its choice of format, the \<open>onstop\<close> handler,
  \<open>convertToWav\<close>, \<open>audioBufferToWav\<close> and the part of \<open>handleAnalyze\<close> that builds
  the upload.

  The browser is a parameter wherever the code calls into it: whether the microphone
  is granted is a truth value, \<open>MediaRecorder.isTypeSupported\<close> is a predicate on
  format strings and \<open>decodeAudioData\<close> a partial function from bytes to a decoded
  buffer.
\<close>

subsection \<open>JavaScript numbers\<close>

text \<open>
  A sample is a JavaScript number. The model keeps the three special values apart and
  takes a finite value as the real number it denotes; the sign of zero is not
  represented. The operations below are the exact ones on these reals. Where the code
  can leave the values of its number format, the rounding is applied on top of them:
  to a double after the sum and the quotient of the mixing loop, and to a 32-bit float
  by the store into a \<open>Float32Array\<close>. The product of a 32-bit float and
  \<open>0x7FFF\<close> or \<open>0x8000\<close> has at most 39 significant bits and is a double as it is.
\<close>

datatype number = NaN | NegInfinity | PosInfinity | Num real

text \<open>\<open>Math.min\<close> and \<open>Math.max\<close>: NaN if either argument is NaN.\<close>

fun Math_min :: "number \<Rightarrow> number \<Rightarrow> number" where
  "Math_min NaN _ = NaN"
| "Math_min _ NaN = NaN"
| "Math_min NegInfinity _ = NegInfinity"
| "Math_min _ NegInfinity = NegInfinity"
| "Math_min PosInfinity y = y"
| "Math_min x PosInfinity = x"
| "Math_min (Num a) (Num b) = Num (min a b)"

fun Math_max :: "number \<Rightarrow> number \<Rightarrow> number" where
  "Math_max NaN _ = NaN"
| "Math_max _ NaN = NaN"
| "Math_max PosInfinity _ = PosInfinity"
| "Math_max _ PosInfinity = PosInfinity"
| "Math_max NegInfinity y = y"
| "Math_max x NegInfinity = x"
| "Math_max (Num a) (Num b) = Num (max a b)"

text \<open>The comparison \<open>x < y\<close>: false as soon as one side is NaN.\<close>

fun number_less :: "number \<Rightarrow> number \<Rightarrow> bool" where
  "number_less NaN _ = False"
| "number_less _ NaN = False"
| "number_less PosInfinity _ = False"
| "number_less _ NegInfinity = False"
| "number_less NegInfinity _ = True"
| "number_less _ PosInfinity = True"
| "number_less (Num a) (Num b) = (a < b)"

text \<open>The sum \<open>x + y\<close>: opposite infinities give NaN.\<close>

fun number_add :: "number \<Rightarrow> number \<Rightarrow> number" where
  "number_add NaN _ = NaN"
| "number_add _ NaN = NaN"
| "number_add PosInfinity NegInfinity = NaN"
| "number_add NegInfinity PosInfinity = NaN"
| "number_add PosInfinity _ = PosInfinity"
| "number_add _ PosInfinity = PosInfinity"
| "number_add NegInfinity _ = NegInfinity"
| "number_add _ NegInfinity = NegInfinity"
| "number_add (Num a) (Num b) = Num (a + b)"

text \<open>
  The product \<open>x * c\<close> and the quotient \<open>x / c\<close> for a positive finite constant \<open>c\<close>,
  the only products and quotients of the code (\<open>* 0x8000\<close>, \<open>* 0x7FFF\<close>, \<open>/ 2\<close>):
  NaN and the infinities are kept.
\<close>

fun number_times :: "number \<Rightarrow> real \<Rightarrow> number" where
  "number_times (Num a) c = Num (a * c)"
| "number_times x c = x"

fun number_divide :: "number \<Rightarrow> real \<Rightarrow> number" where
  "number_divide (Num a) c = Num (a / c)"
| "number_divide x c = x"

text \<open>
  Rounding to a binary floating-point format with \<open>p\<close> significant bits whose finite
  values are the numbers \<open>m * 2 ^ q\<close> with \<open>\<bar>m\<bar> < 2 ^ p\<close> and a quantum exponent
  \<open>q\<close> from \<open>qmin\<close> to \<open>qmax\<close>. The quantum of a real is the least one at which
  its significand fits. The real is rounded to the nearest multiple of its quantum, a
  tie to the even multiple, and a result at or beyond \<open>2 ^ (p + qmax)\<close> is an
  infinity. NaN and the infinities stay as they are.
\<close>

definition roundHalfEven :: "real \<Rightarrow> int" where
  "roundHalfEven y =
     (let n = \<lfloor>y\<rfloor>; d = y - of_int n
      in if d < 1 / 2 then n else if 1 / 2 < d then n + 1
         else if even n then n else n + 1)"

definition quantum :: "nat \<Rightarrow> int \<Rightarrow> int \<Rightarrow> real \<Rightarrow> int option" where
  "quantum p qmin qmax x = find (\<lambda>q. \<bar>x\<bar> < 2 powi (int p + q)) [qmin..qmax]"

fun roundTo :: "nat \<Rightarrow> int \<Rightarrow> int \<Rightarrow> number \<Rightarrow> number" where
  "roundTo p qmin qmax (Num x) =
     (case quantum p qmin qmax x of
        None \<Rightarrow> (if x < 0 then NegInfinity else PosInfinity)
      | Some q \<Rightarrow>
          (let r = of_int (roundHalfEven (x / 2 powi q)) * 2 powi q
           in if 2 powi (int p + qmax) \<le> \<bar>r\<bar>
              then (if r < 0 then NegInfinity else PosInfinity)
              else Num r))"
| "roundTo p qmin qmax v = v"

text \<open>
  Doubles have 53 significant bits and the quanta \<open>2 ^ -1074\<close> to \<open>2 ^ 971\<close>;
  32-bit floats have 24 significant bits and the quanta \<open>2 ^ -149\<close> to \<open>2 ^ 104\<close>.
  A real is a 32-bit float when the rounding leaves it as it is.
\<close>

definition toDouble :: "number \<Rightarrow> number" where
  "toDouble = roundTo 53 (- 1074) 971"

definition toFloat32 :: "number \<Rightarrow> number" where
  "toFloat32 = roundTo 24 (- 149) 104"

definition isFloat32 :: "real \<Rightarrow> bool" where
  "isFloat32 x = (toFloat32 (Num x) = Num x)"

text \<open>
  The integer conversions of the typed-array and DataView stores. A finite value is
  truncated towards zero and then reduced modulo the width of the store (the reduction
  is the one of \<open>word_of_int\<close>); NaN and the infinities become 0.
\<close>

definition trunc :: "real \<Rightarrow> int" where
  "trunc v = (if v < 0 then - \<lfloor>- v\<rfloor> else \<lfloor>v\<rfloor>)"

fun ToInt16 :: "number \<Rightarrow> 16 word" where
  "ToInt16 (Num v) = word_of_int (trunc v)"
| "ToInt16 _ = 0"

subsection \<open>Buffers, DataView stores and blobs\<close>

type_synonym byte = "8 word"

text \<open>
  An \<open>ArrayBuffer\<close> with the DataView on it: a byte sequence, all zero when new.
  Allocation succeeds for every length, as the language allows; a browser may refuse
  a very large buffer.
\<close>

type_synonym DataView = "byte list"

definition new_ArrayBuffer :: "nat \<Rightarrow> DataView" where
  "new_ArrayBuffer n = replicate n 0"

text \<open>
  A DataView store writes the bytes of a value at a byte offset; it throws a RangeError
  (\<open>None\<close>) when the bytes would not fit in the buffer.
\<close>

definition store :: "nat \<Rightarrow> byte list \<Rightarrow> DataView \<Rightarrow> DataView option" where
  "store byteOffset bs view =
     (if byteOffset + length bs \<le> length view
      then Some (take byteOffset view @ bs @ drop (byteOffset + length bs) view)
      else None)"

text \<open>The \<open>n\<close> bytes of a word, least significant first, and the order a store uses.\<close>

definition le_bytes :: "nat \<Rightarrow> 'a::len word \<Rightarrow> byte list" where
  "le_bytes n w = map (\<lambda>k. ucast (drop_bit (8 * k) w)) [0..<n]"

definition ordered :: "bool \<Rightarrow> byte list \<Rightarrow> byte list" where
  "ordered littleEndian bs = (if littleEndian then bs else rev bs)"

definition setUint8 :: "nat \<Rightarrow> nat \<Rightarrow> DataView \<Rightarrow> DataView option" where
  "setUint8 byteOffset v = store byteOffset [word_of_nat v]"

definition setUint16 :: "nat \<Rightarrow> nat \<Rightarrow> bool \<Rightarrow> DataView \<Rightarrow> DataView option" where
  "setUint16 byteOffset v littleEndian =
     store byteOffset (ordered littleEndian (le_bytes 2 (word_of_nat v :: 16 word)))"

definition setUint32 :: "nat \<Rightarrow> nat \<Rightarrow> bool \<Rightarrow> DataView \<Rightarrow> DataView option" where
  "setUint32 byteOffset v littleEndian =
     store byteOffset (ordered littleEndian (le_bytes 4 (word_of_nat v :: 32 word)))"

definition setInt16 :: "nat \<Rightarrow> number \<Rightarrow> bool \<Rightarrow> DataView \<Rightarrow> DataView option" where
  "setInt16 byteOffset v littleEndian =
     store byteOffset (ordered littleEndian (le_bytes 2 (ToInt16 v)))"

text \<open>
  Reading a buffer back: the bytes of a field, and the unsigned number that a byte
  sequence denotes when its first byte is the least significant one.
\<close>

definition bytesAt :: "nat \<Rightarrow> nat \<Rightarrow> byte list \<Rightarrow> byte list" where
  "bytesAt byteOffset n view = take n (drop byteOffset view)"

fun le_uint :: "byte list \<Rightarrow> nat" where
  "le_uint [] = 0"
| "le_uint (b # bs) = unat b + 256 * le_uint bs"

record Blob =
  blobBytes :: "byte list"
  blobType :: string

subsection \<open>The decoded buffer\<close>

text \<open>
  An \<open>AudioBuffer\<close>: a sample rate, a whole number of hertz, and one sample array
  per channel, a \<open>Float32Array\<close> whose finite elements are 32-bit floats.
  \<open>getChannelData\<close> throws an IndexSizeError (\<open>None\<close>) for a channel that does not
  exist. Reading a typed array beyond its end gives \<open>undefined\<close>, which the arithmetic
  of the mixing loop turns into NaN.
\<close>

record AudioBuffer =
  sampleRate :: nat
  channelData :: "number list list"

definition numberOfChannels :: "AudioBuffer \<Rightarrow> nat" where
  "numberOfChannels audioBuffer = length (channelData audioBuffer)"

definition getChannelData :: "AudioBuffer \<Rightarrow> nat \<Rightarrow> number list option" where
  "getChannelData audioBuffer c =
     (if c < numberOfChannels audioBuffer then Some (channelData audioBuffer ! c) else None)"

definition sampleAt :: "number list \<Rightarrow> nat \<Rightarrow> number" where
  "sampleAt xs i = (if i < length xs then xs ! i else NaN)"

subsection \<open>audioBufferToWav\<close>

definition numChannels :: nat where "numChannels = 1"
definition format :: nat where "format = 1"
definition bitDepth :: nat where "bitDepth = 16"

text \<open>
  Line 106: \<open>(left[i] + right[i]) / 2\<close> in double arithmetic, stored into the
  \<open>Float32Array\<close> of line 104.
\<close>

definition mixSample :: "number \<Rightarrow> number \<Rightarrow> number" where
  "mixSample l r = toFloat32 (toDouble (number_divide (toDouble (number_add l r)) 2))"

text \<open>
  Lines 96 to 108: the samples to encode. One channel is taken as it is; otherwise a new
  array as long as channel 0 is filled with the mixed samples of channels 0 and 1.
\<close>

definition downmixToMono :: "AudioBuffer \<Rightarrow> number list option" where
  "downmixToMono audioBuffer =
     (if numberOfChannels audioBuffer = 1 then getChannelData audioBuffer 0
      else do {
        left \<leftarrow> getChannelData audioBuffer 0;
        right \<leftarrow> getChannelData audioBuffer 1;
        Some (map (\<lambda>i. mixSample (sampleAt left i) (sampleAt right i)) [0..<length left])
      })"

text \<open>Lines 115 to 119: \<open>writeString\<close> stores the character codes one byte each.\<close>

fun writeString :: "nat \<Rightarrow> string \<Rightarrow> DataView \<Rightarrow> DataView option" where
  "writeString offset [] view = Some view"
| "writeString offset (c # cs) view =
     setUint8 offset (of_char c) view \<bind> writeString (Suc offset) cs"

text \<open>
  Lines 139 and 140: a sample is clamped to the interval from -1 to 1 and scaled by
  \<open>0x8000\<close> when negative and by \<open>0x7FFF\<close> otherwise; the 16-bit store then converts
  the scaled value. \<open>quantize\<close> is the 16-bit value that ends up in the file.
\<close>

definition scaleSample :: "number \<Rightarrow> number" where
  "scaleSample x =
     (let sample = Math_max (Num (- 1)) (Math_min (Num 1) x)
      in if number_less sample (Num 0) then number_times sample 32768
         else number_times sample 32767)"

definition quantize :: "number \<Rightarrow> 16 word" where
  "quantize x = ToInt16 (scaleSample x)"

text \<open>Lines 137 to 142: the loop over the samples, two bytes further at each step.\<close>

fun writeSamples :: "nat \<Rightarrow> number list \<Rightarrow> DataView \<Rightarrow> DataView option" where
  "writeSamples offset [] view = Some view"
| "writeSamples offset (x # xs) view =
     setInt16 offset (scaleSample x) True view \<bind> writeSamples (offset + 2) xs"

text \<open>
  Lines 110 to 142: the container. A buffer of 44 header bytes and two bytes per sample
  is allocated and filled: the RIFF header, then the samples.
\<close>

definition encodePcmContainer :: "nat \<Rightarrow> number list \<Rightarrow> DataView option" where
  "encodePcmContainer rate audioData =
     (let dataLength = length audioData * (bitDepth div 8);
          view = new_ArrayBuffer (44 + dataLength)
      in writeString 0 ''RIFF'' view
         \<bind> setUint32 4 (36 + dataLength) True
         \<bind> writeString 8 ''WAVE''
         \<bind> writeString 12 ''fmt ''
         \<bind> setUint32 16 16 True
         \<bind> setUint16 20 format True
         \<bind> setUint16 22 numChannels True
         \<bind> setUint32 24 rate True
         \<bind> setUint32 28 (rate * numChannels * (bitDepth div 8)) True
         \<bind> setUint16 32 (numChannels * (bitDepth div 8)) True
         \<bind> setUint16 34 bitDepth True
         \<bind> writeString 36 ''data''
         \<bind> setUint32 40 dataLength True
         \<bind> writeSamples 44 audioData)"

definition audioBufferToWav :: "AudioBuffer \<Rightarrow> Blob option" where
  "audioBufferToWav audioBuffer = do {
     audioData \<leftarrow> downmixToMono audioBuffer;
     buffer \<leftarrow> encodePcmContainer (sampleRate audioBuffer) audioData;
     Some \<lparr>blobBytes = buffer, blobType = ''audio/wav''\<rparr>
   }"

subsection \<open>convertToWav, the recorder's handlers and the upload\<close>

text \<open>
  Lines 79 to 87. \<open>decodeAudioData\<close> stands for the browser's part (the audio context,
  the bytes of the blob, the decoder): \<open>None\<close> is a rejected promise.
\<close>

definition convertToWav :: "(byte list \<Rightarrow> AudioBuffer option) \<Rightarrow> Blob \<Rightarrow> Blob option" where
  "convertToWav decodeAudioData blob = do {
     audioBuffer \<leftarrow> decodeAudioData (blobBytes blob);
     audioBufferToWav audioBuffer
   }"

text \<open>
  What the page does that a user or a developer can observe: lines on the console and
  alerts. The messages are given without the emoji they start with and without the
  blob sizes and the caught error that some of them end with.
\<close>

datatype event = console_log string | console_error string | alert string

text \<open>\<open>String.prototype.includes\<close>.\<close>

fun String_includes :: "string \<Rightarrow> string \<Rightarrow> bool" where
  "String_includes [] t = (t = [])"
| "String_includes (c # cs) t = (take (length t) (c # cs) = t \<or> String_includes cs t)"

text \<open>
  Lines 20 to 36 of \<open>startRecording\<close>: the capture format. WAV is tried first, then the
  list \<open>formats\<close> in its order, and \<open>audio/webm\<close> is taken when nothing is supported.
\<close>

definition formats :: "string list" where
  "formats = [''audio/webm;codecs=pcm'', ''audio/webm;codecs=opus'', ''audio/webm'',
              ''audio/ogg;codecs=opus'', ''audio/mp4'']"

definition selectCaptureFormat :: "(string \<Rightarrow> bool) \<Rightarrow> string \<times> event list" where
  "selectCaptureFormat isTypeSupported =
     (let mimeType = ''audio/wav''
      in if \<not> isTypeSupported mimeType
         then (let mimeType = (case find isTypeSupported formats of
                                 Some fmt \<Rightarrow> fmt
                               | None \<Rightarrow> ''audio/webm'')
               in (mimeType, [console_log ''WAV not supported, checking alternatives...'',
                              console_log (''Using format: '' @ mimeType)]))
         else (mimeType, []))"

text \<open>
  Lines 14 to 76: \<open>startRecording\<close>. \<open>getUserMedia\<close> resolves when the user grants
  the microphone and rejects otherwise. \<open>new MediaRecorder\<close> throws a NotSupportedError
  for a format that \<open>isTypeSupported\<close> does not report as supported. Every exception
  of the \<open>try\<close> block ends in the \<open>catch\<close> of lines 72 to 75, which logs an error
  and alerts the user. The result is the format of the recorder that was started, if
  one was, with what was logged and alerted.
\<close>

definition startRecording :: "bool \<Rightarrow> (string \<Rightarrow> bool) \<Rightarrow> string option \<times> event list" where
  "startRecording granted isTypeSupported =
     (if \<not> granted
      then (None, [console_log ''Requesting microphone permission...'',
                   console_error ''Microphone access error:'',
                   alert ''Please allow microphone permission to record audio.''])
      else (let (mimeType, logged) = selectCaptureFormat isTypeSupported
            in if isTypeSupported mimeType
               then (Some mimeType,
                     [console_log ''Requesting microphone permission...'',
                      console_log ''Microphone access granted.''] @ logged @
                     [console_log ''Recording started.''])
               else (None,
                     [console_log ''Requesting microphone permission...'',
                      console_log ''Microphone access granted.''] @ logged @
                     [console_error ''Microphone access error:'',
                      alert ''Please allow microphone permission to record audio.''])))"

text \<open>
  Lines 45 to 67: the \<open>onstop\<close> handler. The chunks are joined into a blob tagged with
  the capture format; the result is the blob that \<open>setAudioData\<close> keeps for the upload,
  with the console output of the handler.
\<close>

definition onstop ::
  "(byte list \<Rightarrow> AudioBuffer option) \<Rightarrow> string \<Rightarrow> byte list list \<Rightarrow> Blob \<times> event list" where
  "onstop decodeAudioData mimeType chunks =
     (let blob = \<lparr>blobBytes = concat chunks, blobType = mimeType\<rparr>
      in if String_includes mimeType ''webm'' \<or> String_includes mimeType ''ogg''
         then (case convertToWav decodeAudioData blob of
                 Some wavBlob \<Rightarrow>
                   (wavBlob, [console_log ''Converting to WAV format...'',
                              console_log ''Converted to WAV.''])
               | None \<Rightarrow>
                   (blob, [console_log ''Converting to WAV format...'',
                           console_error ''Conversion failed'']))
         else (blob, [console_log ''Recording stopped.'']))"

text \<open>
  Lines 158 to 178 of \<open>handleAnalyze\<close>: without a recording the user is alerted;
  otherwise the kept blob is posted as the form field \<open>file\<close>.
\<close>

record FormData =
  fieldName :: string
  fieldValue :: Blob
  fileName :: string

definition handleAnalyze :: "Blob option \<Rightarrow> event + FormData" where
  "handleAnalyze audioData =
     (case audioData of
        None \<Rightarrow> Inl (alert ''Please record something first!'')
      | Some blob \<Rightarrow>
          Inr \<lparr>fieldName = ''file'', fieldValue = blob, fileName = ''recording.wav''\<rparr>)"

subsection \<open>The layout of the file that \<open>encodePcmContainer\<close> writes\<close>

text \<open>
  The stores of \<open>encodePcmContainer\<close> go through the buffer from offset 0 upwards.
  \<open>filled written n\<close> is a buffer under construction: the bytes written so far,
  followed by \<open>n\<close> bytes that are still zero.
\<close>

definition filled :: "byte list \<Rightarrow> nat \<Rightarrow> DataView" where
  "filled written n = written @ new_ArrayBuffer n"

definition charCodes :: "string \<Rightarrow> byte list" where
  "charCodes s = map (\<lambda>c. word_of_nat (of_char c)) s"

definition uint32_le :: "nat \<Rightarrow> byte list" where
  "uint32_le v = le_bytes 4 (word_of_nat v :: 32 word)"

definition uint16_le :: "nat \<Rightarrow> byte list" where
  "uint16_le v = le_bytes 2 (word_of_nat v :: 16 word)"

text \<open>The 44 header bytes for a sample rate and a payload length, field by field.\<close>

definition wavHeader :: "nat \<Rightarrow> nat \<Rightarrow> byte list" where
  "wavHeader rate dataLength =
     charCodes ''RIFF'' @ uint32_le (36 + dataLength) @ charCodes ''WAVE'' @
     charCodes ''fmt '' @ uint32_le 16 @ uint16_le 1 @ uint16_le 1 @
     uint32_le rate @ uint32_le (rate * 2) @ uint16_le 2 @ uint16_le 16 @
     charCodes ''data'' @ uint32_le dataLength"

text \<open>The payload for a sequence of 16-bit samples: two bytes each, low byte first.\<close>

definition pcm16 :: "16 word list \<Rightarrow> byte list" where
  "pcm16 samples = concat (map (le_bytes 2) samples)"

subsection \<open>Browsers for the examples\<close>

text \<open>
  A decoder that yields a given buffer for every input, one that rejects every input,
  and a recorder that supports exactly the listed formats.
\<close>

definition decodesTo :: "AudioBuffer \<Rightarrow> byte list \<Rightarrow> AudioBuffer option" where
  "decodesTo audioBuffer bs = Some audioBuffer"

definition rejects :: "byte list \<Rightarrow> AudioBuffer option" where
  "rejects bs = None"

definition supportsOnly :: "string list \<Rightarrow> string \<Rightarrow> bool" where
  "supportsOnly fs fmt = (fmt \<in> set fs)"

text \<open>The order in which \<open>startRecording\<close> asks for formats: WAV, then \<open>formats\<close>.\<close>

definition candidates :: "string list" where
  "candidates = ''audio/wav'' # formats"

section \<open>Bytes of a word\<close>

lemma unat_byte_of_word: "unat (ucast (drop_bit n w) :: byte) = unat w div 2 ^ n mod 256"
  for w :: "'a::len word"
  by (simp add: unsigned_ucast_eq unat_drop_bit_eq take_bit_eq_mod) (simp add: drop_bit_eq_div)

lemma le_uint_snoc: "le_uint (bs @ [b]) = le_uint bs + 256 ^ length bs * unat b"
  by (induction bs) (simp_all add: algebra_simps)

lemma length_le_bytes [simp]: "length (le_bytes n w) = n"
  by (simp add: le_bytes_def)

lemma le_bytes_Suc: "le_bytes (Suc n) w = le_bytes n w @ [ucast (drop_bit (8 * n) w)]"
  by (simp add: le_bytes_def)

text \<open>Reading the \<open>n\<close> low bytes of a word back gives the word modulo \<open>2 ^ (8 * n)\<close>.\<close>

lemma le_uint_le_bytes: "le_uint (le_bytes n w) = unat w mod 2 ^ (8 * n)"
  for w :: "'a::len word"
proof (induction n)
  case 0
  show ?case by (simp add: le_bytes_def)
next
  case (Suc n)
  have p: "(256::nat) ^ n = 2 ^ (8 * n)"
    by (simp add: power_mult)
  have "le_uint (le_bytes (Suc n) w)
        = unat w mod 2 ^ (8 * n) + 2 ^ (8 * n) * (unat w div 2 ^ (8 * n) mod 2 ^ 8)"
    by (simp add: le_bytes_Suc le_uint_snoc Suc.IH unat_byte_of_word p)
  also have "\<dots> = unat w mod (2 ^ (8 * n) * 2 ^ 8)"
    by (simp add: mod_mult2_eq)
  also have "\<dots> = unat w mod 2 ^ (8 * Suc n)"
    by (simp add: power_add mult.commute)
  finally show ?case .
qed

lemma le_uint_le_bytes_32: "le_uint (le_bytes 4 (w :: 32 word)) = unat w"
proof -
  have b: "unat w < 2 ^ 32" using unsigned_less [of w, where ?'a = nat] by simp
  show ?thesis using b by (simp add: le_uint_le_bytes)
qed

lemma le_uint_le_bytes_16: "le_uint (le_bytes 2 (w :: 16 word)) = unat w"
proof -
  have b: "unat w < 2 ^ 16" using unsigned_less [of w, where ?'a = nat] by simp
  show ?thesis using b by (simp add: le_uint_le_bytes)
qed

lemma le_uint_uint32_le: "le_uint (uint32_le v) = v mod 2 ^ 32"
  by (simp add: uint32_le_def le_uint_le_bytes_32 unat_of_nat)

lemma le_uint_uint16_le: "le_uint (uint16_le v) = v mod 2 ^ 16"
  by (simp add: uint16_le_def le_uint_le_bytes_16 unat_of_nat)

lemma length_charCodes [simp]: "length (charCodes s) = length s"
  by (simp add: charCodes_def)

lemma length_uint32_le [simp]: "length (uint32_le v) = 4"
  by (simp add: uint32_le_def)

lemma length_uint16_le [simp]: "length (uint16_le v) = 2"
  by (simp add: uint16_le_def)

lemma length_pcm16 [simp]: "length (pcm16 samples) = 2 * length samples"
  by (induction samples) (simp_all add: pcm16_def)

lemma length_wavHeader [simp]: "length (wavHeader rate dataLength) = 44"
  by (simp add: wavHeader_def)

section \<open>Filling the buffer\<close>

text \<open>
  A store at the end of the written part extends the written part; it never throws,
  because the buffer was allocated with room for the header and every sample.
\<close>

lemma store_filled:
  "length pre = off \<Longrightarrow> length bs \<le> m \<Longrightarrow>
   store off bs (filled pre m) = Some (filled (pre @ bs) (m - length bs))"
  by (simp add: store_def filled_def new_ArrayBuffer_def)

lemma setUint8_filled:
  "length pre = off \<Longrightarrow> 1 \<le> m \<Longrightarrow>
   setUint8 off v (filled pre m) = Some (filled (pre @ [word_of_nat v]) (m - 1))"
  by (simp add: setUint8_def store_filled)

lemma setUint16_filled:
  "length pre = off \<Longrightarrow> 2 \<le> m \<Longrightarrow>
   setUint16 off v True (filled pre m) = Some (filled (pre @ uint16_le v) (m - 2))"
  by (simp add: setUint16_def store_filled ordered_def uint16_le_def)

lemma setUint32_filled:
  "length pre = off \<Longrightarrow> 4 \<le> m \<Longrightarrow>
   setUint32 off v True (filled pre m) = Some (filled (pre @ uint32_le v) (m - 4))"
  by (simp add: setUint32_def store_filled ordered_def uint32_le_def)

lemma writeString_filled:
  "length pre = off \<Longrightarrow> length s \<le> m \<Longrightarrow>
   writeString off s (filled pre m) = Some (filled (pre @ charCodes s) (m - length s))"
proof (induction s arbitrary: off pre m)
  case Nil
  then show ?case by (simp add: charCodes_def)
next
  case (Cons c cs)
  have "writeString off (c # cs) (filled pre m)
        = writeString (Suc off) cs (filled (pre @ [word_of_nat (of_char c)]) (m - 1))"
    using Cons.prems by (simp add: setUint8_filled)
  also have "\<dots> = Some (filled ((pre @ [word_of_nat (of_char c)]) @ charCodes cs)
                          (m - 1 - length cs))"
    using Cons.prems by (intro Cons.IH) simp_all
  finally show ?case by (simp add: charCodes_def)
qed

lemma writeSamples_filled:
  "length pre = off \<Longrightarrow>
   writeSamples off xs (filled pre (2 * length xs + k))
     = Some (filled (pre @ pcm16 (map quantize xs)) k)"
proof (induction xs arbitrary: off pre)
  case Nil
  then show ?case by (simp add: pcm16_def)
next
  case (Cons x xs)
  have "writeSamples off (x # xs) (filled pre (2 * length (x # xs) + k))
        = writeSamples (off + 2) xs
            (filled (pre @ le_bytes 2 (quantize x)) (2 * length xs + k))"
    using Cons.prems by (simp add: setInt16_def store_filled ordered_def quantize_def)
  also have "\<dots> = Some (filled ((pre @ le_bytes 2 (quantize x)) @ pcm16 (map quantize xs)) k)"
    using Cons.prems by (intro Cons.IH) simp
  finally show ?case by (simp add: pcm16_def)
qed

text \<open>
  The file that \<open>encodePcmContainer\<close> returns, and it always returns one: the header
  for the sample rate and \<open>2 * N\<close> payload bytes, then the quantised samples.
\<close>

lemma encodePcmContainer_bytes:
  "encodePcmContainer rate audioData
     = Some (wavHeader rate (2 * length audioData) @ pcm16 (map quantize audioData))"
proof -
  have start: "new_ArrayBuffer (44 + n) = filled [] (44 + n)" for n
    by (simp add: filled_def)
  have fin: "filled bs 0 = bs" for bs
    by (simp add: filled_def new_ArrayBuffer_def)
  have "encodePcmContainer rate audioData
        = writeSamples 44 audioData
            (filled (wavHeader rate (2 * length audioData)) (2 * length audioData + 0))"
    by (simp add: encodePcmContainer_def Let_def bitDepth_def numChannels_def format_def start
        writeString_filled setUint32_filled setUint16_filled wavHeader_def mult.commute
        del: writeString.simps Option.bind_assoc)
  also have "\<dots> = Some (filled (wavHeader rate (2 * length audioData)
                                    @ pcm16 (map quantize audioData)) 0)"
    by (rule writeSamples_filled) simp
  finally show ?thesis by (simp add: fin)
qed

section \<open>Quantisation\<close>

lemma clamp_idem:
  "Math_max (Num (- 1)) (Math_min (Num 1) (Math_max (Num (- 1)) (Math_min (Num 1) x)))
     = Math_max (Num (- 1)) (Math_min (Num 1) x)"
  by (cases x) (simp_all add: min_def max_def)

lemma scaleSample_clamp:
  "scaleSample (Math_max (Num (- 1)) (Math_min (Num 1) x)) = scaleSample x"
  unfolding scaleSample_def clamp_idem ..

lemma quantize_zero [simp]: "quantize (Num 0) = 0"
  by (simp add: quantize_def scaleSample_def trunc_def)

lemma trunc_of_int [simp]: "trunc (of_int k) = k"
  by (simp add: trunc_def)

lemma scaleSample_negative:
  "- 32768 \<le> k \<Longrightarrow> k < 0 \<Longrightarrow> scaleSample (Num (of_int k / 32768)) = Num (of_int k)"
  by (simp add: scaleSample_def Let_def min_def max_def)

lemma scaleSample_nonnegative:
  "0 \<le> k \<Longrightarrow> k \<le> 32767 \<Longrightarrow> scaleSample (Num (of_int k / 32767)) = Num (of_int k)"
  by (simp add: scaleSample_def Let_def min_def max_def)

text \<open>
  Every 16-bit value is the quantisation of some sample, so a statement about the
  files written for all sample sequences covers every sequence of 16-bit samples.
\<close>

lemma quantize_surj: "\<exists>x. quantize x = w"
proof -
  define k where "k = sint w"
  have w: "word_of_int k = w" by (simp add: k_def)
  have lo: "- 32768 \<le> k" using sint_ge [of w] by (simp add: k_def)
  have hi: "k \<le> 32767" using sint_lt [of w] by (simp add: k_def)
  show ?thesis
  proof (cases "k < 0")
    case True
    then have "quantize (Num (of_int k / 32768)) = w"
      using lo w by (simp add: quantize_def scaleSample_negative)
    then show ?thesis ..
  next
    case False
    then have "quantize (Num (of_int k / 32767)) = w"
      using hi w by (simp add: quantize_def scaleSample_nonnegative)
    then show ?thesis ..
  qed
qed

text \<open>Everything at or beyond the ends of the interval lands on the extreme values.\<close>

lemma quantize_above: "1 \<le> x \<Longrightarrow> sint (quantize (Num x)) = 32767"
  by (simp add: quantize_def scaleSample_def trunc_def min_def max_def)

lemma quantize_below: "x \<le> - 1 \<Longrightarrow> sint (quantize (Num x)) = - 32768"
  by (simp add: quantize_def scaleSample_def trunc_def min_def max_def)

lemma quantize_special:
  "sint (quantize PosInfinity) = 32767 \<and> sint (quantize NegInfinity) = - 32768 \<and>
   quantize NaN = 0"
  by (simp add: quantize_def scaleSample_def trunc_def)

text \<open>
  C3: \<open>quantize\<close> maps the two ends of the interval and zero exactly: 1.0 becomes 32767,
  -1.0 becomes -32768 and 0.0 becomes 0.
\<close>

theorem quantize_boundaries:
  "sint (quantize (Num 1)) = 32767 \<and> sint (quantize (Num (- 1))) = - 32768 \<and>
   sint (quantize (Num 0)) = 0"
  by (simp add: quantize_def scaleSample_def trunc_def)

text \<open>
  C4: \<open>quantize\<close> clamps before it scales. For every number \<open>x\<close>, NaN and the
  infinities included, the result is the one for \<open>max(-1, min(1, x))\<close>; in particular
  1.5 gives what 1.0 gives and -2.0 what -1.0 gives.
\<close>

theorem quantize_clamps_first:
  "quantize x = quantize (Math_max (Num (- 1)) (Math_min (Num 1) x)) \<and>
   quantize (Num 1.5) = quantize (Num 1) \<and> quantize (Num (- 2)) = quantize (Num (- 1))"
proof -
  have "quantize x = quantize (Math_max (Num (- 1)) (Math_min (Num 1) x))"
    by (simp add: quantize_def scaleSample_clamp)
  moreover have "quantize (Num 1.5) = quantize (Num 1)"
    by (simp add: quantize_def scaleSample_def)
  moreover have "quantize (Num (- 2)) = quantize (Num (- 1))"
    by (simp add: quantize_def scaleSample_def)
  ultimately show ?thesis by blast
qed

section \<open>Rounding\<close>

lemma roundHalfEven_of_int [simp]: "roundHalfEven (of_int n) = n"
  by (simp add: roundHalfEven_def)

text \<open>What the quantum of a real is, and how to find it.\<close>

lemma quantum_SomeD:
  assumes "quantum p qmin qmax x = Some q"
  shows "qmin \<le> q" "q \<le> qmax" "\<bar>x\<bar> < 2 powi (int p + q)"
    "\<And>k. qmin \<le> k \<Longrightarrow> k < q \<Longrightarrow> 2 powi (int p + k) \<le> \<bar>x\<bar>"
proof -
  from assms obtain i where i: "i < length [qmin..qmax]"
    "\<bar>x\<bar> < 2 powi (int p + [qmin..qmax] ! i)" "q = [qmin..qmax] ! i"
    "\<forall>j<i. \<not> \<bar>x\<bar> < 2 powi (int p + [qmin..qmax] ! j)"
    unfolding quantum_def find_Some_iff by blast
  from i(1) have b: "qmin + int i \<le> qmax" by simp
  then have q: "q = qmin + int i" using i(3) by simp
  show "qmin \<le> q" "q \<le> qmax" using q b by simp_all
  show "\<bar>x\<bar> < 2 powi (int p + q)" using i(2,3) by simp
  fix k assume k: "qmin \<le> k" "k < q"
  define j where "j = nat (k - qmin)"
  have j: "j < i" "k = qmin + int j" using k q by (simp_all add: j_def)
  then have "[qmin..qmax] ! j = k" using b by simp
  with i(4) j(1) show "2 powi (int p + k) \<le> \<bar>x\<bar>" by (metis not_less)
qed

lemma quantum_eq:
  assumes "qmin \<le> q" "q \<le> qmax" "\<bar>x\<bar> < 2 powi (int p + q)"
    and "q = qmin \<or> 2 powi (int p + q - 1) \<le> \<bar>x\<bar>"
  shows "quantum p qmin qmax x = Some q"
proof -
  define i where "i = nat (q - qmin)"
  have q: "q = qmin + int i" using assms(1) by (simp add: i_def)
  have len: "i < length [qmin..qmax]" using assms(1,2) by (simp add: i_def)
  have nth: "[qmin..qmax] ! j = qmin + int j" if "j \<le> i" for j
    using that assms(2) q by simp
  have "\<not> \<bar>x\<bar> < 2 powi (int p + [qmin..qmax] ! j)" if "j < i" for j
  proof -
    from that have "q \<noteq> qmin" using q by simp
    with assms(4) have lo: "2 powi (int p + q - 1) \<le> \<bar>x\<bar>" by simp
    have "int p + (qmin + int j) \<le> int p + q - 1" using that q by simp
    then have "(2::real) powi (int p + (qmin + int j)) \<le> 2 powi (int p + q - 1)"
      by (intro power_int_increasing) simp_all
    with lo show ?thesis using nth [of j] that by simp
  qed
  then show ?thesis
    unfolding quantum_def find_Some_iff
    using len assms(3) nth [of i] q by (intro exI [of _ i]) simp
qed

lemma abs_less_power_real: "\<bar>real_of_int m\<bar> < 2 ^ p \<longleftrightarrow> \<bar>m\<bar> < 2 ^ p"
proof -
  have "\<bar>real_of_int m\<bar> < 2 ^ p \<longleftrightarrow> real_of_int \<bar>m\<bar> < real_of_int (2 ^ p)"
    by simp
  also have "\<dots> \<longleftrightarrow> \<bar>m\<bar> < 2 ^ p" by (rule of_int_less_iff)
  finally show ?thesis .
qed

text \<open>
  The values of a format are the fixed points of its rounding.
\<close>

lemma roundTo_representable:
  assumes x: "x = of_int m * 2 powi k" and m: "\<bar>m\<bar> < 2 ^ p" and k: "qmin \<le> k" "k \<le> qmax"
  shows "roundTo p qmin qmax (Num x) = Num x"
proof -
  have pos: "(0::real) < 2 powi j" for j by simp
  have "\<bar>x\<bar> = of_int \<bar>m\<bar> * 2 powi k" by (simp add: x abs_mult)
  also have "\<dots> < 2 ^ p * 2 powi k"
    using m pos [of k] by (simp add: abs_less_power_real)
  also have "\<dots> = 2 powi (int p + k)" by (simp add: power_int_add)
  finally have fits: "\<bar>x\<bar> < 2 powi (int p + k)" .
  have "k \<in> set [qmin..qmax]" using k by simp
  with fits have "quantum p qmin qmax x \<noteq> None"
    unfolding quantum_def find_None_iff by blast
  then obtain q where q: "quantum p qmin qmax x = Some q" by blast
  have qk: "q \<le> k"
  proof (rule ccontr)
    assume "\<not> q \<le> k"
    then have "2 powi (int p + k) \<le> \<bar>x\<bar>" using quantum_SomeD(4) [OF q k(1)] by simp
    with fits show False by simp
  qed
  define d where "d = nat (k - q)"
  have kd: "k = q + int d" using qk by (simp add: d_def)
  have "x / 2 powi q = of_int m * 2 ^ d"
    by (simp add: x kd power_int_add)
  also have "\<dots> = of_int (m * 2 ^ d)" by simp
  finally have n: "roundHalfEven (x / 2 powi q) = m * 2 ^ d"
    by (simp only: roundHalfEven_of_int)
  have r: "of_int (m * 2 ^ d) * 2 powi q = x"
    by (simp add: x kd power_int_add)
  have "(2::real) powi (int p + k) \<le> 2 powi (int p + qmax)"
    using k(2) by (intro power_int_increasing) simp_all
  with fits have small: "\<not> 2 powi (int p + qmax) \<le> \<bar>x\<bar>" by simp
  show ?thesis using small by (simp add: q n r del: of_int_mult of_int_power)
qed

lemma roundTo_fixedD:
  assumes "roundTo p qmin qmax (Num x) = Num x"
  shows "\<exists>m k. x = of_int m * 2 powi k \<and> \<bar>m\<bar> < 2 ^ p \<and> qmin \<le> k \<and> k \<le> qmax"
proof (cases "quantum p qmin qmax x")
  case None
  with assms show ?thesis by (simp split: if_splits)
next
  case (Some q)
  define n where "n = roundHalfEven (x / 2 powi q)"
  from assms Some have r: "of_int n * 2 powi q = x"
    by (simp add: n_def Let_def split: if_splits)
  have pos: "(0::real) < 2 powi q" by simp
  have "of_int \<bar>n\<bar> * 2 powi q = \<bar>x\<bar>" using r [symmetric] by (simp add: abs_mult)
  also have "\<dots> < 2 powi (int p + q)" by (rule quantum_SomeD(3) [OF Some])
  also have "\<dots> = 2 ^ p * 2 powi q" by (simp add: power_int_add)
  finally have "\<bar>real_of_int n\<bar> < 2 ^ p" using pos by simp
  then have "\<bar>n\<bar> < 2 ^ p" by (simp only: abs_less_power_real)
  with r quantum_SomeD(1,2) [OF Some] show ?thesis by (metis)
qed

text \<open>A 32-bit float and its double are doubles.\<close>

lemma float32_is_double:
  assumes "isFloat32 x"
  shows "toDouble (Num x) = Num x" "toDouble (Num (2 * x)) = Num (2 * x)"
proof -
  from assms obtain m k where mk: "x = of_int m * 2 powi k" "\<bar>m\<bar> < 2 ^ 24"
    "- 149 \<le> k" "k \<le> 104"
    unfolding isFloat32_def toFloat32_def using roundTo_fixedD by blast
  have m: "\<bar>m\<bar> < 2 ^ 53" using mk(2) by simp
  show "toDouble (Num x) = Num x"
    unfolding toDouble_def by (rule roundTo_representable [OF mk(1) m]) (use mk in simp_all)
  have "2 * x = of_int m * 2 powi (k + 1)" by (simp add: mk(1) power_int_add)
  then show "toDouble (Num (2 * x)) = Num (2 * x)"
    unfolding toDouble_def by (rule roundTo_representable [OF _ m]) (use mk in simp_all)
qed

text \<open>
  The mixed sample is the arithmetic mean whenever the mean is a 32-bit float.
\<close>

lemma mixSample_exact:
  assumes "isFloat32 ((a + b) / 2)"
  shows "mixSample (Num a) (Num b) = Num ((a + b) / 2)"
proof -
  have s: "2 * ((a + b) / 2) = a + b" by simp
  have "toDouble (Num (a + b)) = Num (a + b)"
    using float32_is_double(2) [OF assms] unfolding s .
  moreover have "toDouble (Num ((a + b) / 2)) = Num ((a + b) / 2)"
    by (rule float32_is_double(1) [OF assms])
  moreover have "toFloat32 (Num ((a + b) / 2)) = Num ((a + b) / 2)"
    using assms by (simp add: isFloat32_def)
  ultimately show ?thesis by (simp add: mixSample_def)
qed

lemma isFloat32_I:
  "x = of_int m * 2 powi k \<Longrightarrow> \<bar>m\<bar> < 2 ^ 24 \<Longrightarrow> - 149 \<le> k \<Longrightarrow> k \<le> 104 \<Longrightarrow> isFloat32 x"
  unfolding isFloat32_def toFloat32_def by (rule roundTo_representable)

lemma isFloat32_examples:
  "isFloat32 0" "isFloat32 1" "isFloat32 (1 / 2)" "isFloat32 (- 1 / 4)"
  "isFloat32 (8389377 / 16777216)" "isFloat32 (- 1)"
proof -
  show "isFloat32 0" by (rule isFloat32_I [of _ 0 0]) simp_all
  show "isFloat32 1" by (rule isFloat32_I [of _ 1 0]) simp_all
  show "isFloat32 (1 / 2)" by (rule isFloat32_I [of _ 1 "- 1"]) simp_all
  show "isFloat32 (- 1 / 4)" by (rule isFloat32_I [of _ "- 1" "- 2"]) simp_all
  show "isFloat32 (8389377 / 16777216)" by (rule isFloat32_I [of _ 8389377 "- 24"]) simp_all
  show "isFloat32 (- 1)" by (rule isFloat32_I [of _ "- 1" 0]) simp_all
qed

text \<open>
  The mean of 1 and \<open>8389377 / 2 ^ 24\<close> lies halfway between two 32-bit floats; the
  store takes the one with the even significand, \<open>12583296 / 2 ^ 24\<close>.
\<close>

lemma mixSample_tie:
  "mixSample (Num 1) (Num (8389377 / 16777216)) = Num (12583296 / 16777216)"
proof -
  have d1: "toDouble (Num (25166593 / 16777216)) = Num (25166593 / 16777216)"
    unfolding toDouble_def by (rule roundTo_representable [of _ 25166593 "- 24"]) simp_all
  have d2: "toDouble (Num (25166593 / 33554432)) = Num (25166593 / 33554432)"
    unfolding toDouble_def by (rule roundTo_representable [of _ 25166593 "- 25"]) simp_all
  have q: "quantum 24 (- 149) 104 (25166593 / 33554432) = Some (- 24)"
    by (rule quantum_eq) simp_all
  have f: "toFloat32 (Num (25166593 / 33554432)) = Num (12583296 / 16777216)"
    by (simp add: toFloat32_def q roundHalfEven_def)
  show ?thesis by (simp add: mixSample_def d1 d2 f)
qed

section \<open>Mixing to mono\<close>

lemma downmixToMono_one: "channelData ab = [channel] \<Longrightarrow> downmixToMono ab = Some channel"
  by (simp add: downmixToMono_def numberOfChannels_def getChannelData_def)

lemma downmixToMono_two_or_more:
  "2 \<le> numberOfChannels ab \<Longrightarrow>
   downmixToMono ab =
     Some (map (\<lambda>i. mixSample (sampleAt (channelData ab ! 0) i) (sampleAt (channelData ab ! 1) i))
             [0..<length (channelData ab ! 0)])"
  by (simp add: downmixToMono_def getChannelData_def)

text \<open>
  C5, as the code has it: a buffer with one channel gives that channel unchanged. For a
  stereo buffer whose two channels have the same length, \<open>downmixToMono\<close> returns an
  array of that length whose element at each index is the mixed sample of the two
  channels there: their sum halved in double arithmetic and rounded to a 32-bit float
  by the store. It is the arithmetic mean \<open>(a + b) / 2\<close> of finite samples \<open>a\<close> and
  \<open>b\<close> whenever that mean is a 32-bit float.
\<close>

theorem downmixToMono_rounded_mean:
  "(channelData ab = [channel] \<longrightarrow> downmixToMono ab = Some channel) \<and>
   (channelData ab = [left, right] \<and> length left = length right \<longrightarrow>
      (\<exists>mixed. downmixToMono ab = Some mixed \<and> length mixed = length left \<and>
         (\<forall>i<length left.
            mixed ! i = mixSample (left ! i) (right ! i) \<and>
            (\<forall>a b. left ! i = Num a \<and> right ! i = Num b \<and> isFloat32 ((a + b) / 2) \<longrightarrow>
               mixed ! i = Num ((a + b) / 2)))))"
proof (intro conjI impI)
  assume "channelData ab = [channel]"
  then show "downmixToMono ab = Some channel" by (rule downmixToMono_one)
next
  assume h: "channelData ab = [left, right] \<and> length left = length right"
  then have n: "2 \<le> numberOfChannels ab" by (simp add: numberOfChannels_def)
  show "\<exists>mixed. downmixToMono ab = Some mixed \<and> length mixed = length left \<and>
         (\<forall>i<length left.
            mixed ! i = mixSample (left ! i) (right ! i) \<and>
            (\<forall>a b. left ! i = Num a \<and> right ! i = Num b \<and> isFloat32 ((a + b) / 2) \<longrightarrow>
               mixed ! i = Num ((a + b) / 2)))"
    using h by (simp add: downmixToMono_two_or_more [OF n] sampleAt_def mixSample_exact)
qed

text \<open>
  The theorem at a mono buffer and at a stereo buffer of two samples per channel, whose
  means 0.5 and -0.25 are 32-bit floats.
\<close>

theorem downmixToMono_rounded_mean_witness:
  "downmixToMono \<lparr>sampleRate = 44100, channelData = [[Num 1, Num 0.5]]\<rparr>
     = Some [Num 1, Num 0.5] \<and>
   isFloat32 ((1 + 0) / 2) \<and> isFloat32 ((0.5 + - 1) / 2) \<and>
   downmixToMono \<lparr>sampleRate = 44100, channelData = [[Num 1, Num 0.5], [Num 0, Num (- 1)]]\<rparr>
     = Some [Num 0.5, Num (- 0.25)]"
proof -
  let ?l = "[Num 1, Num 0.5]" and ?r = "[Num 0, Num (- 1)]"
  let ?ab = "\<lparr>sampleRate = 44100, channelData = [?l, ?r]\<rparr>"
  have f: "isFloat32 ((1 + 0) / 2)" "isFloat32 ((0.5 + - 1) / 2)"
    using isFloat32_examples(3,4) by simp_all
  have "channelData ?ab = [?l, ?r] \<and> length ?l = length ?r" by simp
  with downmixToMono_rounded_mean [of ?ab _ ?l ?r]
  obtain mixed where m1: "downmixToMono ?ab = Some mixed"
    and m2: "length mixed = length ?l"
    and m3: "\<forall>i<length ?l. mixed ! i = mixSample (?l ! i) (?r ! i) \<and>
        (\<forall>a b. ?l ! i = Num a \<and> ?r ! i = Num b \<and> isFloat32 ((a + b) / 2) \<longrightarrow>
           mixed ! i = Num ((a + b) / 2))"
    by blast
  have e0: "mixed ! 0 = Num 0.5"
    using m3 [rule_format, of 0, THEN conjunct2, rule_format, of 1 0] f(1) by simp
  have e1: "mixed ! 1 = Num (- 0.25)"
    using m3 [rule_format, of 1, THEN conjunct2, rule_format, of "0.5" "- 1"] f(2) by simp
  have "mixed = [Num 0.5, Num (- 0.25)]"
    using m2 e0 e1 by (auto simp: list_eq_iff_nth_eq less_Suc_eq)
  with m1 f show ?thesis
    using downmixToMono_rounded_mean [of "\<lparr>sampleRate = 44100,
      channelData = [[Num 1, Num 0.5]]\<rparr>" "[Num 1, Num 0.5]"]
    by simp
qed

text \<open>
  Both samples are 32-bit floats, but their mean \<open>25166593 / 2 ^ 25\<close> is not: the
  element stored is \<open>12583296 / 2 ^ 24\<close>.
\<close>

theorem downmixToMono_mean_counterexample:
  "isFloat32 1 \<and> isFloat32 (8389377 / 16777216) \<and>
   downmixToMono \<lparr>sampleRate = 44100, channelData = [[Num 1], [Num (8389377 / 16777216)]]\<rparr>
     = Some [Num (12583296 / 16777216)] \<and>
   (12583296 / 16777216 :: real) \<noteq> (1 + 8389377 / 16777216) / 2"
proof -
  have "2 \<le> numberOfChannels \<lparr>sampleRate = 44100,
      channelData = [[Num 1], [Num (8389377 / 16777216)]]\<rparr>"
    by (simp add: numberOfChannels_def)
  then have "downmixToMono \<lparr>sampleRate = 44100,
      channelData = [[Num 1], [Num (8389377 / 16777216)]]\<rparr> = Some [Num (12583296 / 16777216)]"
    using mixSample_tie by (simp add: downmixToMono_two_or_more sampleAt_def)
  then show ?thesis using isFloat32_examples(2,5) by simp
qed

section \<open>The fields of the header\<close>

lemma bytesAt_riff_size: "bytesAt 4 4 (wavHeader rate d @ p) = uint32_le (36 + d)"
  by (simp add: bytesAt_def wavHeader_def)

lemma bytesAt_fmt_size: "bytesAt 16 4 (wavHeader rate d @ p) = uint32_le 16"
  by (simp add: bytesAt_def wavHeader_def)

lemma bytesAt_format: "bytesAt 20 2 (wavHeader rate d @ p) = uint16_le 1"
  by (simp add: bytesAt_def wavHeader_def)

lemma bytesAt_channels: "bytesAt 22 2 (wavHeader rate d @ p) = uint16_le 1"
  by (simp add: bytesAt_def wavHeader_def)

lemma bytesAt_rate: "bytesAt 24 4 (wavHeader rate d @ p) = uint32_le rate"
  by (simp add: bytesAt_def wavHeader_def)

lemma bytesAt_byte_rate: "bytesAt 28 4 (wavHeader rate d @ p) = uint32_le (rate * 2)"
  by (simp add: bytesAt_def wavHeader_def)

lemma bytesAt_block_align: "bytesAt 32 2 (wavHeader rate d @ p) = uint16_le 2"
  by (simp add: bytesAt_def wavHeader_def)

lemma bytesAt_bit_depth: "bytesAt 34 2 (wavHeader rate d @ p) = uint16_le 16"
  by (simp add: bytesAt_def wavHeader_def)

lemma bytesAt_data_size: "bytesAt 40 4 (wavHeader rate d @ p) = uint32_le d"
  by (simp add: bytesAt_def wavHeader_def)

lemma bytesAt_tags:
  "bytesAt 0 4 (wavHeader rate d @ p) = charCodes ''RIFF'' \<and>
   bytesAt 8 8 (wavHeader rate d @ p) = charCodes ''WAVEfmt '' \<and>
   bytesAt 36 4 (wavHeader rate d @ p) = charCodes ''data''"
  by (simp add: bytesAt_def wavHeader_def charCodes_def)

lemma drop_header: "drop 44 (wavHeader rate d @ p) = p"
  by simp

text \<open>
  C6: for every sequence of \<open>N\<close> samples, \<open>encodePcmContainer\<close> returns a buffer of
  exactly \<open>44 + 2 * N\<close> bytes. The four bytes at offset 4, read as a little-endian
  unsigned number, are the total length minus 8 reduced modulo \<open>2 ^ 32\<close>, the width
  of the field; they equal the total length minus 8 whenever that is below \<open>2 ^ 32\<close>.
  The 16-bit samples in the file are \<open>map quantize audioData\<close>, and every sequence of
  16-bit samples arises so (\<open>quantize_surj\<close>).
\<close>

theorem pcm_container_length:
  "\<exists>out. encodePcmContainer rate audioData = Some out \<and>
     length out = 44 + 2 * length audioData \<and>
     le_uint (bytesAt 4 4 out) = (length out - 8) mod 2 ^ 32 \<and>
     (length out - 8 < 2 ^ 32 \<longrightarrow> le_uint (bytesAt 4 4 out) = length out - 8)"
  by (simp add: encodePcmContainer_bytes bytesAt_riff_size le_uint_uint32_le)

text \<open>Three samples: 50 bytes, and 42 in the size field.\<close>

theorem pcm_container_length_witness:
  "\<exists>out. encodePcmContainer 44100 [Num 1, Num 0, Num (- 1)] = Some out \<and>
     length out = 50 \<and> le_uint (bytesAt 4 4 out) = 42"
  using pcm_container_length [of 44100 "[Num 1, Num 0, Num (- 1)]"]
  by auto

text \<open>
  With 2147483630 samples the total length minus 8 is \<open>2 ^ 32\<close>, and the 32-bit store
  of line 122 leaves 0 in the field.
\<close>

theorem pcm_container_length_counterexample:
  "encodePcmContainer 44100 (replicate 2147483630 (Num 0)) \<noteq> None \<and>
   length (the (encodePcmContainer 44100 (replicate 2147483630 (Num 0)))) - 8 = 4294967296 \<and>
   le_uint (bytesAt 4 4 (the (encodePcmContainer 44100 (replicate 2147483630 (Num 0))))) = 0"
  by (simp add: encodePcmContainer_bytes bytesAt_riff_size le_uint_uint32_le)


text \<open>Least significant byte first.\<close>

lemma uint32_le_example: "uint32_le 0x12345678 = [0x78, 0x56, 0x34, 0x12]"
  by (simp add: uint32_le_def le_bytes_def upt_rec drop_bit_eq_div)

text \<open>
  C7: in every container that \<open>encodePcmContainer\<close> produces, each multi-byte field
  of the header holds the bytes of its value with the least significant byte first; the
  block-alignment field is \<open>numChannels * (bitDepth / 8)\<close>; the payload-length field is
  the number of bytes after the header, and the byte-rate field is
  \<open>sampleRate * numChannels * (bitDepth / 8)\<close>, both reduced modulo \<open>2 ^ 32\<close> by the
  32-bit store and so equal to those numbers whenever they are below \<open>2 ^ 32\<close>.
\<close>

theorem pcm_header_fields:
  "\<exists>out. encodePcmContainer rate audioData = Some out \<and>
     bytesAt 4 4 out = uint32_le (36 + length (drop 44 out)) \<and>
     bytesAt 16 4 out = uint32_le 16 \<and>
     bytesAt 20 2 out = uint16_le format \<and>
     bytesAt 22 2 out = uint16_le numChannels \<and>
     bytesAt 24 4 out = uint32_le rate \<and>
     bytesAt 28 4 out = uint32_le (rate * numChannels * (bitDepth div 8)) \<and>
     bytesAt 32 2 out = uint16_le (numChannels * (bitDepth div 8)) \<and>
     bytesAt 34 2 out = uint16_le bitDepth \<and>
     bytesAt 40 4 out = uint32_le (length (drop 44 out)) \<and>
     le_uint (bytesAt 40 4 out) = length (drop 44 out) mod 2 ^ 32 \<and>
     (length (drop 44 out) < 2 ^ 32 \<longrightarrow> le_uint (bytesAt 40 4 out) = length (drop 44 out)) \<and>
     le_uint (bytesAt 28 4 out) = (rate * numChannels * (bitDepth div 8)) mod 2 ^ 32 \<and>
     (rate * numChannels * (bitDepth div 8) < 2 ^ 32 \<longrightarrow>
        le_uint (bytesAt 28 4 out) = rate * numChannels * (bitDepth div 8)) \<and>
     le_uint (bytesAt 32 2 out) = numChannels * (bitDepth div 8)"
proof -
  let ?out = "wavHeader rate (2 * length audioData) @ pcm16 (map quantize audioData)"
  have enc: "encodePcmContainer rate audioData = Some ?out"
    by (rule encodePcmContainer_bytes)
  have pl: "length (drop 44 ?out) = 2 * length audioData"
    by simp
  have c: "numChannels = 1" "bitDepth div 8 = 2" "format = 1" "bitDepth = 16"
    by (simp_all add: numChannels_def bitDepth_def format_def)
  have f1: "bytesAt 4 4 ?out = uint32_le (36 + length (drop 44 ?out))"
    unfolding pl by (rule bytesAt_riff_size)
  have f2: "bytesAt 16 4 ?out = uint32_le 16" by (rule bytesAt_fmt_size)
  have f3: "bytesAt 20 2 ?out = uint16_le format" unfolding c by (rule bytesAt_format)
  have f4: "bytesAt 22 2 ?out = uint16_le numChannels" unfolding c by (rule bytesAt_channels)
  have f5: "bytesAt 24 4 ?out = uint32_le rate" by (rule bytesAt_rate)
  have f6: "bytesAt 28 4 ?out = uint32_le (rate * numChannels * (bitDepth div 8))"
    unfolding c by (simp add: bytesAt_byte_rate)
  have f7: "bytesAt 32 2 ?out = uint16_le (numChannels * (bitDepth div 8))"
    unfolding c by (simp add: bytesAt_block_align)
  have f8: "bytesAt 34 2 ?out = uint16_le bitDepth" unfolding c by (rule bytesAt_bit_depth)
  have f9: "bytesAt 40 4 ?out = uint32_le (length (drop 44 ?out))"
    unfolding pl by (rule bytesAt_data_size)
  have r1: "le_uint (bytesAt 40 4 ?out) = length (drop 44 ?out) mod 2 ^ 32"
    unfolding f9 by (rule le_uint_uint32_le)
  have r2: "length (drop 44 ?out) < 2 ^ 32 \<longrightarrow>
      le_uint (bytesAt 40 4 ?out) = length (drop 44 ?out)"
    unfolding r1 by simp
  have r3: "le_uint (bytesAt 28 4 ?out) = (rate * numChannels * (bitDepth div 8)) mod 2 ^ 32"
    unfolding f6 by (rule le_uint_uint32_le)
  have r4: "rate * numChannels * (bitDepth div 8) < 2 ^ 32 \<longrightarrow>
      le_uint (bytesAt 28 4 ?out) = rate * numChannels * (bitDepth div 8)"
    unfolding r3 by simp
  have r5: "le_uint (bytesAt 32 2 ?out) = numChannels * (bitDepth div 8)"
    unfolding f7 c by (simp add: le_uint_uint16_le)
  show ?thesis
    using enc f1 f2 f3 f4 f5 f6 f7 f8 f9 r1 r2 r3 r4 r5 by blast
qed

text \<open>Three samples at 44100 Hz: 6 payload bytes, byte rate 88200, block alignment 2.\<close>

theorem pcm_header_fields_witness:
  "\<exists>out. encodePcmContainer 44100 [Num 1, Num 0, Num (- 1)] = Some out \<and>
     length (drop 44 out) = 6 \<and> le_uint (bytesAt 40 4 out) = 6 \<and>
     le_uint (bytesAt 28 4 out) = 88200 \<and> le_uint (bytesAt 32 2 out) = 2"
  using pcm_header_fields [of 44100 "[Num 1, Num 0, Num (- 1)]"]
  by (auto simp: encodePcmContainer_bytes numChannels_def bitDepth_def)

text \<open>
  With 2147483648 samples the payload has \<open>2 ^ 32\<close> bytes, and the 32-bit store of
  line 133 leaves 0 in the payload-length field.
\<close>

theorem pcm_header_fields_counterexample:
  "encodePcmContainer 44100 (replicate 2147483648 (Num 0)) \<noteq> None \<and>
   length (drop 44 (the (encodePcmContainer 44100 (replicate 2147483648 (Num 0)))))
     = 4294967296 \<and>
   le_uint (bytesAt 40 4 (the (encodePcmContainer 44100 (replicate 2147483648 (Num 0))))) = 0"
  by (simp add: encodePcmContainer_bytes bytesAt_data_size le_uint_uint32_le)

section \<open>The whole conversion\<close>

lemma pcm16_zeros: "pcm16 (replicate n 0) = replicate (2 * n) 0"
  by (induction n) (simp_all add: pcm16_def le_bytes_def upt_rec)

lemma audioBufferToWav_bytes:
  "downmixToMono ab = Some audioData \<Longrightarrow>
   audioBufferToWav ab =
     Some \<lparr>blobBytes = wavHeader (sampleRate ab) (2 * length audioData)
                         @ pcm16 (map quantize audioData),
           blobType = ''audio/wav''\<rparr>"
  by (simp add: audioBufferToWav_def encodePcmContainer_bytes)

text \<open>The header of a file for 44100 samples at 44100 Hz, byte by byte.\<close>

lemma wavHeader_one_second:
  "wavHeader 44100 88200 =
     [0x52, 0x49, 0x46, 0x46, 0xAC, 0x58, 0x01, 0x00, 0x57, 0x41, 0x56, 0x45,
      0x66, 0x6D, 0x74, 0x20, 0x10, 0x00, 0x00, 0x00, 0x01, 0x00, 0x01, 0x00,
      0x44, 0xAC, 0x00, 0x00, 0x88, 0x58, 0x01, 0x00, 0x02, 0x00, 0x10, 0x00,
      0x64, 0x61, 0x74, 0x61, 0x88, 0x58, 0x01, 0x00]"
  by (simp add: wavHeader_def charCodes_def uint32_le_def uint16_le_def le_bytes_def
      upt_rec drop_bit_eq_div)

text \<open>
  C9: one second of silence at 44100 Hz in one channel, 44100 samples of amplitude 0,
  is re-encoded into a WAV file of exactly 44 + 88200 bytes. Its first 44 bytes are the
  header of a 16-bit mono PCM file at 44100 Hz with 88200 payload bytes (RIFF size
  88236, byte rate 88200, block alignment 2), and every payload byte is zero.
\<close>

theorem silence_one_second:
  "\<exists>wav. audioBufferToWav \<lparr>sampleRate = 44100, channelData = [replicate 44100 (Num 0)]\<rparr>
            = Some wav \<and>
     blobType wav = ''audio/wav'' \<and>
     length (blobBytes wav) = 44 + 88200 \<and>
     take 44 (blobBytes wav) = wavHeader 44100 88200 \<and>
     take 44 (blobBytes wav) =
       [0x52, 0x49, 0x46, 0x46, 0xAC, 0x58, 0x01, 0x00, 0x57, 0x41, 0x56, 0x45,
        0x66, 0x6D, 0x74, 0x20, 0x10, 0x00, 0x00, 0x00, 0x01, 0x00, 0x01, 0x00,
        0x44, 0xAC, 0x00, 0x00, 0x88, 0x58, 0x01, 0x00, 0x02, 0x00, 0x10, 0x00,
        0x64, 0x61, 0x74, 0x61, 0x88, 0x58, 0x01, 0x00] \<and>
     drop 44 (blobBytes wav) = replicate 88200 0"
proof -
  let ?ab = "\<lparr>sampleRate = 44100, channelData = [replicate 44100 (Num 0)]\<rparr>"
  let ?wav = "\<lparr>blobBytes = wavHeader 44100 88200 @ replicate 88200 0,
                blobType = ''audio/wav''\<rparr>"
  have "downmixToMono ?ab = Some (replicate 44100 (Num 0))"
    by (rule downmixToMono_one) simp
  then have w: "audioBufferToWav ?ab = Some ?wav"
    by (simp add: audioBufferToWav_bytes pcm16_zeros)
  have t: "take 44 (blobBytes ?wav) = wavHeader 44100 88200" by simp
  have "blobType ?wav = ''audio/wav''" "length (blobBytes ?wav) = 44 + 88200"
    "drop 44 (blobBytes ?wav) = replicate 88200 0"
    by simp_all
  with w t t [unfolded wavHeader_one_second [symmetric]] show ?thesis
    unfolding wavHeader_one_second by blast
qed

section \<open>Buffers with more than two channels\<close>

text \<open>A decoded buffer has at least one channel, and then the mixing returns an array.\<close>

lemma downmixToMono_total: "channelData ab \<noteq> [] \<Longrightarrow> \<exists>audioData. downmixToMono ab = Some audioData"
  by (cases "channelData ab")
    (auto simp: downmixToMono_def numberOfChannels_def getChannelData_def)

text \<open>
  C10, as the code has it: a buffer with more than two channels is not rejected. The
  mixed array is as long as channel 0 and its element at each index is the mixed sample
  of channels 0 and 1 there: their sum halved in double arithmetic and rounded to a
  32-bit float by the store, which is the arithmetic mean of finite samples whenever
  that mean is a 32-bit float. The further channels play no part: the buffer cut down
  to its first two channels gives the same array. The file returned is the header
  followed by the quantised mixed samples.
\<close>

theorem downmixToMono_first_two_channels:
  "2 < numberOfChannels ab \<Longrightarrow>
   \<exists>mixed. downmixToMono ab = Some mixed \<and>
     length mixed = length (channelData ab ! 0) \<and>
     (\<forall>i<length mixed. i < length (channelData ab ! 1) \<longrightarrow>
        mixed ! i = mixSample (channelData ab ! 0 ! i) (channelData ab ! 1 ! i) \<and>
        (\<forall>a b. channelData ab ! 0 ! i = Num a \<and> channelData ab ! 1 ! i = Num b \<and>
               isFloat32 ((a + b) / 2) \<longrightarrow>
           mixed ! i = Num ((a + b) / 2))) \<and>
     downmixToMono (ab\<lparr>channelData := take 2 (channelData ab)\<rparr>) = Some mixed \<and>
     audioBufferToWav ab =
       Some \<lparr>blobBytes = wavHeader (sampleRate ab) (2 * length mixed)
                           @ pcm16 (map quantize mixed),
             blobType = ''audio/wav''\<rparr>"
proof -
  assume n: "2 < numberOfChannels ab"
  then have two: "2 \<le> numberOfChannels ab" by simp
  let ?ab = "ab\<lparr>channelData := take 2 (channelData ab)\<rparr>"
  let ?mixed = "map (\<lambda>i. mixSample (sampleAt (channelData ab ! 0) i)
                                  (sampleAt (channelData ab ! 1) i))
                  [0..<length (channelData ab ! 0)]"
  have two': "2 \<le> numberOfChannels ?ab"
    using n by (simp add: numberOfChannels_def)
  have same: "channelData ?ab ! 0 = channelData ab ! 0" "channelData ?ab ! 1 = channelData ab ! 1"
    by simp_all
  have d: "downmixToMono ab = Some ?mixed"
    by (rule downmixToMono_two_or_more [OF two])
  have d': "downmixToMono ?ab = Some ?mixed"
    unfolding downmixToMono_two_or_more [OF two'] same ..
  have w: "audioBufferToWav ab =
       Some \<lparr>blobBytes = wavHeader (sampleRate ab) (2 * length ?mixed)
                           @ pcm16 (map quantize ?mixed),
             blobType = ''audio/wav''\<rparr>"
    by (rule audioBufferToWav_bytes [OF d])
  have e: "\<forall>i<length ?mixed. i < length (channelData ab ! 1) \<longrightarrow>
        ?mixed ! i = mixSample (channelData ab ! 0 ! i) (channelData ab ! 1 ! i) \<and>
        (\<forall>a b. channelData ab ! 0 ! i = Num a \<and> channelData ab ! 1 ! i = Num b \<and>
               isFloat32 ((a + b) / 2) \<longrightarrow>
           ?mixed ! i = Num ((a + b) / 2))"
    by (simp add: sampleAt_def mixSample_exact)
  have l: "length ?mixed = length (channelData ab ! 0)" by simp
  from d l e d' w show ?thesis by blast
qed

text \<open>
  Three channels of two samples: the third channel does not show in the result, and the
  file holds the samples 16383 and -8192 for the means 0.5 and -0.25.
\<close>

theorem downmixToMono_first_two_channels_witness:
  "downmixToMono \<lparr>sampleRate = 48000,
      channelData = [[Num 1, Num 0.5], [Num 0, Num (- 1)], [Num 1, Num 1]]\<rparr>
     = Some [Num 0.5, Num (- 0.25)] \<and>
   audioBufferToWav \<lparr>sampleRate = 48000,
      channelData = [[Num 1, Num 0.5], [Num 0, Num (- 1)], [Num 1, Num 1]]\<rparr>
     = Some \<lparr>blobBytes = wavHeader 48000 4 @ pcm16 [16383, - 8192],
             blobType = ''audio/wav''\<rparr>"
proof -
  let ?ab = "\<lparr>sampleRate = 48000,
      channelData = [[Num 1, Num 0.5], [Num 0, Num (- 1)], [Num 1, Num 1]]\<rparr>"
  have f: "isFloat32 ((1 + 0) / 2)" "isFloat32 ((0.5 + - 1) / 2)"
    using isFloat32_examples(3,4) by simp_all
  have "2 < numberOfChannels ?ab" by (simp add: numberOfChannels_def)
  from downmixToMono_first_two_channels [OF this]
  obtain mixed where m1: "downmixToMono ?ab = Some mixed"
    and m2: "length mixed = length (channelData ?ab ! 0)"
    and m3: "\<forall>i<length mixed. i < length (channelData ?ab ! 1) \<longrightarrow>
        mixed ! i = mixSample (channelData ?ab ! 0 ! i) (channelData ?ab ! 1 ! i) \<and>
        (\<forall>a b. channelData ?ab ! 0 ! i = Num a \<and> channelData ?ab ! 1 ! i = Num b \<and>
               isFloat32 ((a + b) / 2) \<longrightarrow>
           mixed ! i = Num ((a + b) / 2))"
    and m4: "audioBufferToWav ?ab =
       Some \<lparr>blobBytes = wavHeader (sampleRate ?ab) (2 * length mixed)
                           @ pcm16 (map quantize mixed),
             blobType = ''audio/wav''\<rparr>"
    by blast
  have len: "length mixed = 2" using m2 by simp
  have e0: "mixed ! 0 = Num 0.5"
    using m3 [rule_format, of 0, THEN conjunct2, rule_format, of 1 0] f(1) len by simp
  have e1: "mixed ! 1 = Num (- 0.25)"
    using m3 [rule_format, of 1, THEN conjunct2, rule_format, of "0.5" "- 1"] f(2) len by simp
  have mixed: "mixed = [Num 0.5, Num (- 0.25)]"
    using len e0 e1 by (auto simp: list_eq_iff_nth_eq less_Suc_eq numeral_2_eq_2)
  show ?thesis using m1 m4 by (simp add: mixed quantize_def scaleSample_def trunc_def)
qed

text \<open>
  Channels 0 and 1 hold the 32-bit floats 1 and \<open>8389377 / 2 ^ 24\<close>. Their mean is
  \<open>25166593 / 2 ^ 25\<close> and would be written as the sample 24576; the element stored is
  \<open>12583296 / 2 ^ 24\<close> and the sample in the file is 24575.
\<close>

theorem downmixToMono_first_two_channels_counterexample:
  "downmixToMono \<lparr>sampleRate = 48000,
      channelData = [[Num 1], [Num (8389377 / 16777216)], [Num 0]]\<rparr>
     = Some [Num (12583296 / 16777216)] \<and>
   (12583296 / 16777216 :: real) \<noteq> (1 + 8389377 / 16777216) / 2 \<and>
   audioBufferToWav \<lparr>sampleRate = 48000,
      channelData = [[Num 1], [Num (8389377 / 16777216)], [Num 0]]\<rparr>
     = Some \<lparr>blobBytes = wavHeader 48000 2 @ pcm16 [24575], blobType = ''audio/wav''\<rparr> \<and>
   quantize (Num ((1 + 8389377 / 16777216) / 2)) = 24576"
proof -
  let ?ab = "\<lparr>sampleRate = 48000,
      channelData = [[Num 1], [Num (8389377 / 16777216)], [Num 0]]\<rparr>"
  have "2 \<le> numberOfChannels ?ab" by (simp add: numberOfChannels_def)
  then have d: "downmixToMono ?ab = Some [Num (12583296 / 16777216)]"
    using mixSample_tie by (simp add: downmixToMono_two_or_more sampleAt_def)
  have q: "quantize (Num ((1 + 8389377 / 16777216) / 2)) = 24576"
    by (simp add: quantize_def scaleSample_def trunc_def)
  have "audioBufferToWav ?ab
      = Some \<lparr>blobBytes = wavHeader 48000 2 @ pcm16 [24575], blobType = ''audio/wav''\<rparr>"
    using audioBufferToWav_bytes [OF d]
    by (simp add: quantize_def scaleSample_def trunc_def)
  with d q show ?thesis by simp
qed

section \<open>The capture format\<close>

lemma selectCaptureFormat_find:
  "fst (selectCaptureFormat isTypeSupported) =
     (case find isTypeSupported candidates of Some fmt \<Rightarrow> fmt | None \<Rightarrow> ''audio/webm'')"
  by (simp add: selectCaptureFormat_def candidates_def Let_def)

lemma selectCaptureFormat_events:
  "snd (selectCaptureFormat isTypeSupported) = [] \<or>
   (\<exists>a b. snd (selectCaptureFormat isTypeSupported) = [console_log a, console_log b])"
  by (simp add: selectCaptureFormat_def Let_def)

lemma selectCaptureFormat_supported:
  assumes "\<exists>fmt\<in>set candidates. isTypeSupported fmt"
  shows "isTypeSupported (fst (selectCaptureFormat isTypeSupported))"
proof -
  from assms have "find isTypeSupported candidates \<noteq> None"
    unfolding find_None_iff by blast
  then obtain fmt where f: "find isTypeSupported candidates = Some fmt" by blast
  then have "isTypeSupported fmt" unfolding find_Some_iff by blast
  with f show ?thesis by (simp add: selectCaptureFormat_find)
qed

lemma startRecording_supported:
  assumes "isTypeSupported (fst (selectCaptureFormat isTypeSupported))"
  shows "startRecording True isTypeSupported =
     (Some (fst (selectCaptureFormat isTypeSupported)),
      [console_log ''Requesting microphone permission...'',
       console_log ''Microphone access granted.''] @
      snd (selectCaptureFormat isTypeSupported) @ [console_log ''Recording started.''])"
  using assms by (simp add: startRecording_def split_beta)

text \<open>
  C8, as the code has it: the candidates are tried in their fixed order, WAV first. The
  format chosen is the first candidate that the platform reports as supported; only when
  it supports none of them is the default \<open>audio/webm\<close> taken. Whenever some candidate
  is supported, the recorder is started with the chosen format and nothing reaches the
  user: no alert is raised and no error is logged.
\<close>

theorem selectCaptureFormat_first_supported:
  "hd candidates = ''audio/wav'' \<and>
   (\<forall>i<length candidates.
      isTypeSupported (candidates ! i) \<and> (\<forall>j<i. \<not> isTypeSupported (candidates ! j)) \<longrightarrow>
      fst (selectCaptureFormat isTypeSupported) = candidates ! i) \<and>
   ((\<forall>fmt\<in>set candidates. \<not> isTypeSupported fmt) \<longrightarrow>
      fst (selectCaptureFormat isTypeSupported) = ''audio/webm'') \<and>
   ((\<exists>fmt\<in>set candidates. isTypeSupported fmt) \<longrightarrow>
      fst (startRecording True isTypeSupported)
        = Some (fst (selectCaptureFormat isTypeSupported)) \<and>
      (\<forall>msg. alert msg \<notin> set (snd (startRecording True isTypeSupported)) \<and>
             console_error msg \<notin> set (snd (startRecording True isTypeSupported))))"
proof (intro conjI allI impI)
  show "hd candidates = ''audio/wav''" by (simp add: candidates_def)
next
  fix i
  assume "i < length candidates"
    and "isTypeSupported (candidates ! i) \<and> (\<forall>j<i. \<not> isTypeSupported (candidates ! j))"
  then have "find isTypeSupported candidates = Some (candidates ! i)"
    unfolding find_Some_iff by blast
  then show "fst (selectCaptureFormat isTypeSupported) = candidates ! i"
    by (simp add: selectCaptureFormat_find)
next
  assume "\<forall>fmt\<in>set candidates. \<not> isTypeSupported fmt"
  then have "find isTypeSupported candidates = None"
    unfolding find_None_iff by blast
  then show "fst (selectCaptureFormat isTypeSupported) = ''audio/webm''"
    by (simp add: selectCaptureFormat_find)
next
  assume s: "\<exists>fmt\<in>set candidates. isTypeSupported fmt"
  note r = startRecording_supported [of isTypeSupported, OF selectCaptureFormat_supported [OF s]]
  show "fst (startRecording True isTypeSupported)
      = Some (fst (selectCaptureFormat isTypeSupported))"
    by (simp add: r)
  fix msg
  show "alert msg \<notin> set (snd (startRecording True isTypeSupported))"
    using selectCaptureFormat_events [of isTypeSupported] by (auto simp: r)
  show "console_error msg \<notin> set (snd (startRecording True isTypeSupported))"
    using selectCaptureFormat_events [of isTypeSupported] by (auto simp: r)
qed

text \<open>
  A recorder that supports only MP4 and Ogg gets Ogg, the earlier of the two in the
  list, and starts; for one that supports nothing the default is chosen.
\<close>

theorem selectCaptureFormat_first_supported_witness:
  "fst (selectCaptureFormat (supportsOnly [''audio/mp4'', ''audio/ogg;codecs=opus'']))
     = ''audio/ogg;codecs=opus'' \<and>
   startRecording True (supportsOnly [''audio/mp4'', ''audio/ogg;codecs=opus''])
     = (Some ''audio/ogg;codecs=opus'',
        [console_log ''Requesting microphone permission...'',
         console_log ''Microphone access granted.'',
         console_log ''WAV not supported, checking alternatives...'',
         console_log ''Using format: audio/ogg;codecs=opus'',
         console_log ''Recording started.'']) \<and>
   fst (selectCaptureFormat (supportsOnly [])) = ''audio/webm''"
  using selectCaptureFormat_first_supported
      [of "supportsOnly [''audio/mp4'', ''audio/ogg;codecs=opus'']"]
    selectCaptureFormat_first_supported [of "supportsOnly []"]
  by (simp add: startRecording_def selectCaptureFormat_def Let_def formats_def
      supportsOnly_def)

text \<open>
  On a platform that supports none of the candidates the default \<open>audio/webm\<close> is
  chosen, the recorder cannot be constructed with it, and the user is alerted.
\<close>

theorem selectCaptureFormat_counterexample:
  "fst (selectCaptureFormat (supportsOnly [])) = ''audio/webm'' \<and>
   startRecording True (supportsOnly [])
     = (None,
        [console_log ''Requesting microphone permission...'',
         console_log ''Microphone access granted.'',
         console_log ''WAV not supported, checking alternatives...'',
         console_log ''Using format: audio/webm'',
         console_error ''Microphone access error:'',
         alert ''Please allow microphone permission to record audio.''])"
  by (simp add: startRecording_def selectCaptureFormat_def Let_def formats_def
      supportsOnly_def)

section \<open>The stop handler\<close>

lemma onstop_other:
  "\<not> String_includes mimeType ''webm'' \<Longrightarrow> \<not> String_includes mimeType ''ogg'' \<Longrightarrow>
   onstop decodeAudioData mimeType chunks =
     (\<lparr>blobBytes = concat chunks, blobType = mimeType\<rparr>, [console_log ''Recording stopped.''])"
  by (simp add: onstop_def)

lemma onstop_converted:
  "String_includes mimeType ''webm'' \<or> String_includes mimeType ''ogg'' \<Longrightarrow>
   decodeAudioData (concat chunks) = Some audioBuffer \<Longrightarrow>
   downmixToMono audioBuffer = Some audioData \<Longrightarrow>
   onstop decodeAudioData mimeType chunks =
     (\<lparr>blobBytes = wavHeader (sampleRate audioBuffer) (2 * length audioData)
                     @ pcm16 (map quantize audioData),
       blobType = ''audio/wav''\<rparr>,
      [console_log ''Converting to WAV format...'', console_log ''Converted to WAV.''])"
  by (simp add: onstop_def convertToWav_def audioBufferToWav_bytes)

lemma onstop_failed:
  "String_includes mimeType ''webm'' \<or> String_includes mimeType ''ogg'' \<Longrightarrow>
   decodeAudioData (concat chunks) = None \<Longrightarrow>
   onstop decodeAudioData mimeType chunks =
     (\<lparr>blobBytes = concat chunks, blobType = mimeType\<rparr>,
      [console_log ''Converting to WAV format...'', console_error ''Conversion failed''])"
  by (simp add: onstop_def convertToWav_def)

lemma not_includes_wav:
  "\<not> String_includes ''audio/wav'' ''webm'' \<and> \<not> String_includes ''audio/wav'' ''ogg''"
  by simp

text \<open>
  C1, as the code has it: the test of line 49 is on the substrings \<open>webm\<close> and
  \<open>ogg\<close> of the format tag. A recording whose tag contains neither (\<open>audio/wav\<close>,
  and also \<open>audio/mp4\<close>) is kept unchanged, whatever the decoder would do. A recording
  whose tag contains one of them and that decodes to a buffer with at least one channel
  is replaced by the file that \<open>encodePcmContainer\<close> writes for the mixed samples of
  \<open>downmixToMono\<close>, its payload being their quantisation, tagged \<open>audio/wav\<close>.
  In both cases the kept blob is the one that the upload sends as the field \<open>file\<close>.
\<close>

theorem onstop_reencodes_webm_and_ogg:
  "(\<not> String_includes mimeType ''webm'' \<and> \<not> String_includes mimeType ''ogg'' \<longrightarrow>
      fst (onstop decodeAudioData mimeType chunks)
        = \<lparr>blobBytes = concat chunks, blobType = mimeType\<rparr>) \<and>
   fst (onstop decodeAudioData ''audio/wav'' chunks)
     = \<lparr>blobBytes = concat chunks, blobType = ''audio/wav''\<rparr> \<and>
   ((String_includes mimeType ''webm'' \<or> String_includes mimeType ''ogg'') \<and>
    decodeAudioData (concat chunks) = Some audioBuffer \<and> channelData audioBuffer \<noteq> [] \<longrightarrow>
      (\<exists>audioData out.
         downmixToMono audioBuffer = Some audioData \<and>
         encodePcmContainer (sampleRate audioBuffer) audioData = Some out \<and>
         drop 44 out = pcm16 (map quantize audioData) \<and>
         fst (onstop decodeAudioData mimeType chunks)
           = \<lparr>blobBytes = out, blobType = ''audio/wav''\<rparr>)) \<and>
   handleAnalyze (Some (fst (onstop decodeAudioData mimeType chunks)))
     = Inr \<lparr>fieldName = ''file'',
            fieldValue = fst (onstop decodeAudioData mimeType chunks),
            fileName = ''recording.wav''\<rparr>"
proof (intro conjI impI)
  assume "\<not> String_includes mimeType ''webm'' \<and> \<not> String_includes mimeType ''ogg''"
  then show "fst (onstop decodeAudioData mimeType chunks)
      = \<lparr>blobBytes = concat chunks, blobType = mimeType\<rparr>"
    by (simp add: onstop_other)
next
  show "fst (onstop decodeAudioData ''audio/wav'' chunks)
      = \<lparr>blobBytes = concat chunks, blobType = ''audio/wav''\<rparr>"
    using not_includes_wav by (simp add: onstop_other)
next
  assume h: "(String_includes mimeType ''webm'' \<or> String_includes mimeType ''ogg'') \<and>
    decodeAudioData (concat chunks) = Some audioBuffer \<and> channelData audioBuffer \<noteq> []"
  then obtain audioData where d: "downmixToMono audioBuffer = Some audioData"
    using downmixToMono_total by blast
  let ?out = "wavHeader (sampleRate audioBuffer) (2 * length audioData)
                @ pcm16 (map quantize audioData)"
  have "encodePcmContainer (sampleRate audioBuffer) audioData = Some ?out"
    by (rule encodePcmContainer_bytes)
  moreover have "drop 44 ?out = pcm16 (map quantize audioData)"
    by simp
  moreover have "fst (onstop decodeAudioData mimeType chunks)
      = \<lparr>blobBytes = ?out, blobType = ''audio/wav''\<rparr>"
    using h d by (simp add: onstop_converted)
  ultimately show "\<exists>audioData out.
         downmixToMono audioBuffer = Some audioData \<and>
         encodePcmContainer (sampleRate audioBuffer) audioData = Some out \<and>
         drop 44 out = pcm16 (map quantize audioData) \<and>
         fst (onstop decodeAudioData mimeType chunks)
           = \<lparr>blobBytes = out, blobType = ''audio/wav''\<rparr>"
    using d by blast
next
  show "handleAnalyze (Some (fst (onstop decodeAudioData mimeType chunks)))
     = Inr \<lparr>fieldName = ''file'',
            fieldValue = fst (onstop decodeAudioData mimeType chunks),
            fileName = ''recording.wav''\<rparr>"
    by (simp add: handleAnalyze_def)
qed

text \<open>An MP4 recording stays as it is; a WebM recording of two samples becomes a WAV file.\<close>

theorem onstop_reencodes_webm_and_ogg_witness:
  "fst (onstop rejects ''audio/mp4'' [[1, 2], [3]])
     = \<lparr>blobBytes = [1, 2, 3], blobType = ''audio/mp4''\<rparr> \<and>
   fst (onstop (decodesTo \<lparr>sampleRate = 44100, channelData = [[Num 1, Num 0]]\<rparr>)
          ''audio/webm;codecs=opus'' [[1, 2], [3]])
     = \<lparr>blobBytes = wavHeader 44100 4 @ pcm16 [32767, 0], blobType = ''audio/wav''\<rparr>"
  using onstop_reencodes_webm_and_ogg [of "''audio/mp4''" rejects "[[1, 2], [3]]"]
    onstop_reencodes_webm_and_ogg [of "''audio/webm;codecs=opus''"
      "decodesTo \<lparr>sampleRate = 44100, channelData = [[Num 1, Num 0]]\<rparr>" "[[1, 2], [3]]"
      "\<lparr>sampleRate = 44100, channelData = [[Num 1, Num 0]]\<rparr>"]
  by (auto simp: decodesTo_def downmixToMono_one encodePcmContainer_bytes quantize_def
      scaleSample_def trunc_def)

text \<open>
  \<open>audio/mp4\<close> is a compressed format that \<open>startRecording\<close> can choose. With a
  decoder that accepts the recording, \<open>convertToWav\<close> would give a WAV file, but the
  handler keeps the captured MP4 bytes: no decoding takes place.
\<close>

theorem onstop_reencodes_counterexample:
  "fst (onstop (decodesTo \<lparr>sampleRate = 44100, channelData = [[Num 0]]\<rparr>)
          ''audio/mp4'' [[1, 2], [3]])
     = \<lparr>blobBytes = [1, 2, 3], blobType = ''audio/mp4''\<rparr> \<and>
   convertToWav (decodesTo \<lparr>sampleRate = 44100, channelData = [[Num 0]]\<rparr>)
       \<lparr>blobBytes = [1, 2, 3], blobType = ''audio/mp4''\<rparr>
     = Some \<lparr>blobBytes = wavHeader 44100 2 @ [0, 0], blobType = ''audio/wav''\<rparr>"
  by (simp add: onstop_other convertToWav_def decodesTo_def audioBufferToWav_bytes
      downmixToMono_one pcm16_def le_bytes_def upt_rec)

text \<open>
  C2: when the decoder rejects the recording, the handler keeps the captured blob
  unchanged and throws nothing; where the decoding step exists (the tag contains
  \<open>webm\<close> or \<open>ogg\<close>) the failure is reported with \<open>console.error\<close>; and the upload
  then sends the captured blob.
\<close>

theorem onstop_decode_failure_keeps_recording:
  "decodeAudioData (concat chunks) = None \<Longrightarrow>
   fst (onstop decodeAudioData mimeType chunks)
     = \<lparr>blobBytes = concat chunks, blobType = mimeType\<rparr> \<and>
   (String_includes mimeType ''webm'' \<or> String_includes mimeType ''ogg'' \<longrightarrow>
      snd (onstop decodeAudioData mimeType chunks)
        = [console_log ''Converting to WAV format...'', console_error ''Conversion failed'']) \<and>
   handleAnalyze (Some (fst (onstop decodeAudioData mimeType chunks)))
     = Inr \<lparr>fieldName = ''file'',
            fieldValue = \<lparr>blobBytes = concat chunks, blobType = mimeType\<rparr>,
            fileName = ''recording.wav''\<rparr>"
  by (cases "String_includes mimeType ''webm'' \<or> String_includes mimeType ''ogg''")
    (simp_all add: onstop_failed onstop_other handleAnalyze_def)

text \<open>A WebM recording of three bytes and a decoder that rejects it.\<close>

theorem onstop_decode_failure_witness:
  "rejects (concat [[1, 2], [3]]) = None \<and>
   onstop rejects ''audio/webm;codecs=opus'' [[1, 2], [3]]
     = (\<lparr>blobBytes = [1, 2, 3], blobType = ''audio/webm;codecs=opus''\<rparr>,
        [console_log ''Converting to WAV format...'', console_error ''Conversion failed'']) \<and>
   handleAnalyze (Some (fst (onstop rejects ''audio/webm;codecs=opus'' [[1, 2], [3]])))
     = Inr \<lparr>fieldName = ''file'',
            fieldValue = \<lparr>blobBytes = [1, 2, 3], blobType = ''audio/webm;codecs=opus''\<rparr>,
            fileName = ''recording.wav''\<rparr>"
  using onstop_decode_failure_keeps_recording
      [of rejects "[[1, 2], [3]]" "''audio/webm;codecs=opus''"]
  by (auto simp: rejects_def prod_eq_iff handleAnalyze_def)

end
